theory Spec2Isabelle
  imports Main
begin

section \<open>Data model of package resource\<close>

text \<open>
  A Go \<open>error\<close> is an interface value; \<open>nil\<close> is \<open>None\<close> of \<open>error option\<close>,
  and \<open>errors.New(msg)\<close> is \<open>Error msg\<close>.
\<close>

datatype error = Error string

text \<open>
  \<open>context.Context\<close> is an interface, so \<open>nil\<close> is one of its values
  (\<open>indexWatchServer.Context\<close> tests for it).
\<close>

datatype Context = NilContext | Background | Request string

text \<open>
  The messages of the package are generated code; their fields here are those that
  index_server.go and sql/server.go read and write. \<open>ResourceKey\<close> is the identity
  of a resource. Byte strings are \<open>string\<close>, the 64-bit versions are \<open>int\<close> (the code
  only copies them).
\<close>

record ResourceKey =
  key_Group :: string
  key_Resource :: string
  key_Namespace :: string
  key_Name :: string

record ResourceWrapper =
  rw_ResourceVersion :: int
  rw_Value :: string

text \<open>The decoded form of a resource value, as \<open>getGroup\<close> and \<open>Send\<close> read it.\<close>

record Metadata =
  meta_Namespace :: string
  meta_Name :: string

record Resource =
  res_ApiVersion :: string
  res_Kind :: string
  res_Metadata :: Metadata

text \<open>
  A watch event carries the resource it is about, with its version and value; \<open>Send\<close>
  reads both without a test. Modelled from the spec: the type of the event (section 3:
  added, modified or deleted), which \<open>Send\<close> does not read.
\<close>

datatype WatchEvent_Type = ADDED | MODIFIED | DELETED

record WatchEvent_Resource =
  wer_Version :: int
  wer_Value :: string

record WatchEvent =
  we_Type :: WatchEvent_Type
  we_Resource :: WatchEvent_Resource

text \<open>Pointers that the code tests against \<open>nil\<close>, or may leave \<open>nil\<close>, are options.\<close>

record IndexRequest =
  req_Key :: "ResourceKey option"
  req_Value :: "ResourceWrapper option"

record Data =
  data_Key :: "ResourceKey option"
  data_Value :: "ResourceWrapper option"

section \<open>getGroup\<close>

text \<open>
  \<open>strings.Split(s, "/")\<close> of the Go library, for the one-byte separator the code passes:
  the loop of \<open>genSplit\<close> looks for the next separator, cuts the segment before it and
  goes on behind it; the rest without a separator is the last segment.
\<close>

fun IndexByte :: "string \<Rightarrow> char \<Rightarrow> nat option" where
  "IndexByte [] c = None"
| "IndexByte (x # xs) c = (if x = c then Some 0 else map_option Suc (IndexByte xs c))"

function Split :: "string \<Rightarrow> char \<Rightarrow> string list" where
  "Split s sep =
     (case IndexByte s sep of
        None \<Rightarrow> [s]
      | Some m \<Rightarrow> take m s # Split (drop (m + 1) s) sep)"
  by pat_completeness auto
termination
proof (relation "measure (\<lambda>(s, sep). length s)")
  show "wf (measure (\<lambda>(s, sep). length s))"
    by simp
next
  fix s :: string and sep :: char and m :: nat
  assume found: "IndexByte s sep = Some m"
  have "m < length s"
    using found by (induction s arbitrary: m) (auto split: if_splits)
  then show "((drop (m + 1) s, sep), (s, sep)) \<in> measure (\<lambda>(s, sep). length s)"
    by simp
qed

declare Split.simps [simp del]

text \<open>
  \<open>getGroup\<close>: \<open>v[0]\<close> is read only under the guard \<open>len(v) > 0\<close>; the other branch
  returns the empty string.
\<close>

definition getGroup :: "Resource \<Rightarrow> string" where
  "getGroup r =
     (let v = Split (res_ApiVersion r) (CHR ''/'')
      in if length v > 0 then v ! 0 else '''')"

text \<open>
  The words of the specification, for comparison: the group is the first segment of the
  apiVersion, that is, what stands before its first \<open>/\<close>.
\<close>

definition first_segment :: "string \<Rightarrow> string" where
  "first_segment s = takeWhile (\<lambda>c. c \<noteq> CHR ''/'') s"

section \<open>The index server (index_server.go)\<close>

text \<open>
  The type \<open>Index\<close> with \<open>NewIndex\<close>, \<open>Init\<close> and \<open>Index\<close>, and the decoder
  \<open>getResource\<close>, are called by index_server.go and declared elsewhere. They are
  parameters of the model: \<open>'idx\<close> is the state of an \<open>Index\<close> object, \<open>'srv\<close> the
  resource server that \<open>*server\<close> points to. A method of \<open>*Index\<close> returns the state it
  leaves its receiver in, next to its error. \<open>is.index\<close> is a pointer that is \<open>nil\<close>
  until the first initialization, and Go passes a \<open>nil\<close> receiver on to the method, so
  \<open>Index_Index\<close> takes the pointer as it is.
\<close>

datatype Opts = Opts

record ('srv, 'idx) IndexOps =
  getResource :: "string \<Rightarrow> error + Resource"
  NewIndex :: "'srv option \<Rightarrow> Opts \<Rightarrow> 'idx"
  Index_Init :: "'idx \<Rightarrow> Context \<Rightarrow> 'idx \<times> error option"
  Index_Index :: "'idx option \<Rightarrow> Context \<Rightarrow> Data \<Rightarrow> 'idx option \<times> error option"

text \<open>
  \<open>indexWatchServer\<close>: its field \<open>is\<close> points back to the index server that owns it;
  the functions below take that index server as an argument of its own.
\<close>

record indexWatchServer =
  ws_context :: Context

record ('srv, 'idx) indexServer =
  is_s :: "'srv option"
  is_index :: "'idx option"
  is_ws :: "indexWatchServer option"

text \<open>\<open>IndexResponse\<close> has no field the code reads; the code only returns \<open>nil\<close> for it.\<close>

datatype IndexResponse = IndexResponse

text \<open>
  Modelled from the spec: the fields of \<open>SearchResponse\<close>, a generated message that
  index_server.go uses and does not declare. Section 4.3: a search returns the matching documents. The
  Go zero value \<open>SearchResponse{}\<close> that \<open>Search\<close> builds has none.
\<close>

record SearchResponse =
  sr_Items :: "ResourceWrapper list"

record ListOptions =
  lo_Key :: "ResourceKey option"

record WatchRequest =
  wr_Options :: "ListOptions option"

definition NewResourceIndexServer :: "('srv, 'idx) indexServer" where
  "NewResourceIndexServer = \<lparr>is_s = None, is_index = None, is_ws = None\<rparr>"

text \<open>\<open>Search\<close> has a value receiver and reads neither it nor the request.\<close>

definition Search ::
  "('srv, 'idx) indexServer \<Rightarrow> Context \<Rightarrow> 'req \<Rightarrow> SearchResponse option \<times> error option" where
  "Search this ctx req = (let res = \<lparr>sr_Items = []\<rparr> in (Some res, None))"

definition History ::
  "('srv, 'idx) indexServer \<Rightarrow> Context \<Rightarrow> 'req \<Rightarrow> 'resp option \<times> error option" where
  "History this ctx req = (None, None)"

definition Origin ::
  "('srv, 'idx) indexServer \<Rightarrow> Context \<Rightarrow> 'req \<Rightarrow> 'resp option \<times> error option" where
  "Origin this ctx req = (None, None)"

text \<open>
  \<open>indexServer.Index\<close> has a pointer receiver: the result holds the index server as the
  call leaves it, then the two values returned.
\<close>

definition indexServer_Index ::
  "('srv, 'idx) IndexOps \<Rightarrow> ('srv, 'idx) indexServer \<Rightarrow> Context \<Rightarrow> IndexRequest \<Rightarrow>
     ('srv, 'idx) indexServer \<times> IndexResponse option \<times> error option" where
  "indexServer_Index P this ctx req =
     (if req_Key req = None then
        (let fresh = NewIndex P (is_s this) Opts;
             this1 = this\<lparr>is_index := Some fresh\<rparr>;
             (i, err) = Index_Init P fresh ctx;
             this2 = this1\<lparr>is_index := Some i\<rparr>
         in if err \<noteq> None then (this2, None, err) else (this2, None, None))
      else
        (let (i, err) = Index_Index P (is_index this) ctx
                          \<lparr>data_Key = req_Key req, data_Value = req_Value req\<rparr>;
             this1 = this\<lparr>is_index := i\<rparr>
         in if err \<noteq> None then (this1, None, err) else (this1, None, None)))"

text \<open>
  \<open>indexServer.Init\<close> starts \<open>rs.Watch(wr, is.ws)\<close> in a goroutine that assigns the
  result to the local \<open>err\<close>, and returns \<open>err\<close> at once, with nothing that waits for
  the goroutine. What \<open>return err\<close> reads depends on how far the goroutine has come by
  then; that is the last argument: \<open>Running\<close> when \<open>Watch\<close> has not returned yet (it
  serves the subscription for as long as it is open), \<open>Returned r\<close> when it already
  has, with result \<open>r\<close>. The result holds the index server, the watch request handed to
  the goroutine, and the error returned.
\<close>

datatype 'a goroutine = Running | Returned 'a

definition indexServer_Init ::
  "('srv, 'idx) indexServer \<Rightarrow> Context \<Rightarrow> 'srv option \<Rightarrow> error option goroutine \<Rightarrow>
     ('srv, 'idx) indexServer \<times> WatchRequest \<times> error option" where
  "indexServer_Init this ctx rs watch =
     (let this1 = this\<lparr>is_s := rs\<rparr>;
          this2 = this1\<lparr>is_ws := Some \<lparr>ws_context = ctx\<rparr>\<rparr>;
          wr = \<lparr>wr_Options = Some \<lparr>lo_Key = Some
                 \<lparr>key_Group = ''playlist.grafana.app'', key_Resource = ''playlists'',
                  key_Namespace = [], key_Name = []\<rparr>\<rparr>\<rparr>;
          err0 = None;
          err = (case watch of Running \<Rightarrow> err0 | Returned r \<Rightarrow> r)
      in (this2, wr, err))"

subsection \<open>The watch-to-index bridge\<close>

text \<open>The locals \<open>key\<close> and \<open>value\<close> of \<open>indexWatchServer.Send\<close>.\<close>

definition Send_key :: "Resource \<Rightarrow> ResourceKey" where
  "Send_key r =
     \<lparr>key_Group = getGroup r, key_Resource = res_Kind r,
      key_Namespace = meta_Namespace (res_Metadata r), key_Name = meta_Name (res_Metadata r)\<rparr>"

definition Send_value :: "WatchEvent \<Rightarrow> ResourceWrapper" where
  "Send_value we =
     \<lparr>rw_ResourceVersion = wer_Version (we_Resource we), rw_Value = wer_Value (we_Resource we)\<rparr>"

definition Send ::
  "('srv, 'idx) IndexOps \<Rightarrow> indexWatchServer \<Rightarrow> ('srv, 'idx) indexServer \<Rightarrow> WatchEvent \<Rightarrow>
     ('srv, 'idx) indexServer \<times> error option" where
  "Send P f this we =
     (case getResource P (wer_Value (we_Resource we)) of
        Inl err \<Rightarrow> (this, Some err)
      | Inr r \<Rightarrow>
          (let key = Send_key r;
               value = Send_value we;
               (this1, resp, err) =
                 indexServer_Index P this (ws_context f) \<lparr>req_Key = Some key, req_Value = Some value\<rparr>
           in if err \<noteq> None then (this1, err) else (this1, None)))"

definition RecvMsg :: "indexWatchServer \<Rightarrow> 'm \<Rightarrow> error option" where
  "RecvMsg f m = None"

definition SendMsg :: "indexWatchServer \<Rightarrow> 'm \<Rightarrow> error option" where
  "SendMsg f m = Some (Error ''not implemented'')"

definition Context_of :: "indexWatchServer \<Rightarrow> indexWatchServer \<times> Context" where
  "Context_of f =
     (let f1 = (if ws_context f = NilContext then f\<lparr>ws_context := Background\<rparr> else f)
      in (f1, ws_context f1))"

section \<open>The constructor of the SQL resource server (sql/server.go)\<close>

text \<open>
  \<open>NewResourceServer\<close> of package sql calls \<open>dbimpl.ProvideResourceDB\<close>, \<open>NewBackend\<close>,
  \<open>resource.NewResourceServer\<close> and the method \<open>Index\<close> of the server it gets; none
  of them is defined in the two files, so they are parameters, as is the name of the feature
  flag. \<open>'rs\<close> is the state of the resource server; \<open>server_Index\<close> returns the state
  it leaves the server in, then its two results. The feature toggles are their method
  \<open>IsEnabledGlobally\<close>.
\<close>

record ('edb, 'tr) BackendOptions =
  bo_DBProvider :: "'edb"
  bo_Tracer :: "'tr"

record ('tr, 'st, 'srv, 'idx) ResourceServerOptions =
  opts_Tracer :: "'tr"
  opts_Backend :: "'st option"
  opts_Diagnostics :: "'st option"
  opts_Lifecycle :: "'st option"
  opts_Index :: "('srv, 'idx) indexServer option"

record ('db, 'cfg, 'tr, 'edb, 'st, 'srv, 'idx, 'rs) SqlDeps =
  FlagUnifiedStorageSearch :: string
  ProvideResourceDB :: "'db \<Rightarrow> 'cfg \<Rightarrow> (string \<Rightarrow> bool) \<Rightarrow> 'tr \<Rightarrow> error + 'edb"
  NewBackend :: "('edb, 'tr) BackendOptions \<Rightarrow> error + 'st"
  resource_NewResourceServer :: "('tr, 'st, 'srv, 'idx) ResourceServerOptions \<Rightarrow> error + 'rs"
  server_Index :: "'rs \<Rightarrow> Context \<Rightarrow> IndexRequest \<Rightarrow> 'rs \<times> IndexResponse option \<times> error option"

definition NewResourceServer ::
  "('db, 'cfg, 'tr, 'edb, 'st, 'srv, 'idx, 'rs) SqlDeps \<Rightarrow> 'db \<Rightarrow> 'cfg \<Rightarrow> (string \<Rightarrow> bool) \<Rightarrow> 'tr \<Rightarrow>
     'rs option \<times> error option" where
  "NewResourceServer D db cfg features tracer =
     (let opts = \<lparr>opts_Tracer = tracer, opts_Backend = None, opts_Diagnostics = None,
                  opts_Lifecycle = None, opts_Index = None\<rparr>
      in case ProvideResourceDB D db cfg features tracer of
           Inl err \<Rightarrow> (None, Some err)
         | Inr eDB \<Rightarrow>
             (case NewBackend D \<lparr>bo_DBProvider = eDB, bo_Tracer = tracer\<rparr> of
                Inl err \<Rightarrow> (None, Some err)
              | Inr store \<Rightarrow>
                  (let opts1 = opts\<lparr>opts_Backend := Some store, opts_Diagnostics := Some store,
                                    opts_Lifecycle := Some store\<rparr>
                   in if features (FlagUnifiedStorageSearch D) then
                        (let opts2 = opts1\<lparr>opts_Index := Some NewResourceIndexServer\<rparr>
                         in case resource_NewResourceServer D opts2 of
                              Inl err \<Rightarrow> (None, Some err)
                            | Inr server \<Rightarrow>
                                (let (server1, resp, err) =
                                       server_Index D server Background \<lparr>req_Key = None, req_Value = None\<rparr>
                                 in (Some server1, err)))
                      else
                        (case resource_NewResourceServer D opts1 of
                           Inl err \<Rightarrow> (None, Some err)
                         | Inr server \<Rightarrow> (Some server, None)))))"

section \<open>Parts modelled from the specification\<close>

subsection \<open>The index's documents\<close>

text \<open>
  Modelled from the spec: the type \<open>Index\<close> and its method \<open>Index\<close>, which
  index_server.go calls and does not define. Sections 3 and 4.3: an
  \<open>IndexDocument\<close> is a key, a version and a value; the index holds at most one
  document per key; \<open>Index(key, value)\<close> is an upsert that discards a value whose
  version is older than or equal to the version stored for the key.
\<close>

record IndexDocument =
  doc_key :: ResourceKey
  doc_version :: int
  doc_value :: string

definition document :: "ResourceKey \<Rightarrow> ResourceWrapper \<Rightarrow> IndexDocument" where
  "document k v = \<lparr>doc_key = k, doc_version = rw_ResourceVersion v, doc_value = rw_Value v\<rparr>"

fun upsert :: "ResourceKey \<Rightarrow> ResourceWrapper \<Rightarrow> IndexDocument list \<Rightarrow> IndexDocument list" where
  "upsert k v [] = [document k v]"
| "upsert k v (d # ds) =
     (if doc_key d = k then
        (if rw_ResourceVersion v \<le> doc_version d then d # ds else document k v # ds)
      else d # upsert k v ds)"

definition stored :: "IndexDocument list \<Rightarrow> ResourceKey \<Rightarrow> IndexDocument option" where
  "stored docs k = find (\<lambda>d. doc_key d = k) docs"

definition Index_upsert ::
  "IndexDocument list \<Rightarrow> ResourceKey \<Rightarrow> ResourceWrapper \<Rightarrow> IndexDocument list \<times> error option" where
  "Index_upsert docs k v = (upsert k v docs, None)"

subsection \<open>The backend's Write\<close>

text \<open>
  Modelled from the spec: the Backend and its \<open>Write\<close> (sql/server.go calls
  \<open>NewBackend\<close>; the backend itself is defined in neither file). Sections 4.1 and 6:
  \<open>Write(key, value, expectedVersion?)\<close> fails with \<open>ConflictError\<close> when a
  precondition is supplied and does not match the latest stored version, fails with
  \<open>StorageError\<close> when the storage provider fails (the first argument tells whether it
  works), and otherwise appends a version with the next number of the key and emits
  the change event. The backend keeps, for every key, its versions from oldest to
  newest, and the events emitted so far.
\<close>

datatype WriteError = ConflictError | StorageError

record Backend =
  be_versions :: "ResourceKey \<Rightarrow> ResourceWrapper list"
  be_events :: "(ResourceKey \<times> WatchEvent) list"

definition latest_version :: "Backend \<Rightarrow> ResourceKey \<Rightarrow> int option" where
  "latest_version b k =
     (case be_versions b k of [] \<Rightarrow> None | w # ws \<Rightarrow> Some (rw_ResourceVersion (last (w # ws))))"

definition Write ::
  "bool \<Rightarrow> Backend \<Rightarrow> ResourceKey \<Rightarrow> string \<Rightarrow> int option \<Rightarrow> Backend \<times> (WriteError + int)" where
  "Write storage_ok b k val expectedVersion =
     (let cur = latest_version b k
      in if expectedVersion \<noteq> None \<and> expectedVersion \<noteq> cur then (b, Inl ConflictError)
         else if \<not> storage_ok then (b, Inl StorageError)
         else
           (let n = (case cur of None \<Rightarrow> 1 | Some c \<Rightarrow> c + 1);
                ev = \<lparr>we_Type = (if cur = None then ADDED else MODIFIED),
                      we_Resource = \<lparr>wer_Version = n, wer_Value = val\<rparr>\<rparr>
            in (b\<lparr>be_versions := (be_versions b)
                     (k := be_versions b k @ [\<lparr>rw_ResourceVersion = n, rw_Value = val\<rparr>]),
                   be_events := be_events b @ [(k, ev)]\<rparr>,
                Inr n)))"

subsection \<open>The delivery of watch events\<close>

text \<open>
  Modelled from the spec: the delivery loop of \<open>server.Watch\<close>, which \<open>Init\<close> starts
  and index_server.go does not define. Sections 4.1 and 4.2: the events of a subscription are
  offered to the subscriber in order, through its \<open>Send\<close>; the subscription stays open
  until it is cancelled or fails; a subscriber that errors while receiving is
  unregistered and its error is what the subscription ends with. The result holds the
  index server, the error the subscription ended with (none when the events ran out),
  and the events that were no longer offered.
\<close>

fun Watch_deliver ::
  "('srv, 'idx) IndexOps \<Rightarrow> indexWatchServer \<Rightarrow> ('srv, 'idx) indexServer \<Rightarrow> WatchEvent list \<Rightarrow>
     ('srv, 'idx) indexServer \<times> error option \<times> WatchEvent list" where
  "Watch_deliver P f this [] = (this, None, [])"
| "Watch_deliver P f this (we # wes) =
     (case Send P f this we of
        (this1, Some err) \<Rightarrow> (this1, Some err, wes)
      | (this1, None) \<Rightarrow> Watch_deliver P f this1 wes)"

subsection \<open>The resource server and its Index operation\<close>

text \<open>
  Modelled from the spec: the resource server of package resource, with
  \<open>resource.NewResourceServer\<close> and the method \<open>Index\<close> that sql/server.go calls and
  does not define. Sections 2, 4.4, 6 and 9: the server binds the backend and the index
  together; it is built first, with its index not yet wired to it; \<open>Index\<close> is the
  control operation handed to the index, and with an absent key it is the explicit
  initialization step: it first supplies the server reference to the index, through
  the \<open>Init\<close> of the interface \<open>ResourceIndexer\<close> that index_server.go declares for this,
  and then has the index initialized from scratch; a failure of either is the failure
  of the operation. \<open>srv_self\<close> is the reference to the server that its methods
  receive. The second argument of \<open>facade_Index\<close> is the progress of the goroutine
  that \<open>Init\<close> starts, as \<open>indexServer_Init\<close> takes it. The spec leaves open what
  \<open>Index\<close> does on a server without an index; here it fails.
\<close>

record ('srv, 'idx, 'st) server =
  srv_self :: "'srv"
  srv_backend :: "'st option"
  srv_index :: "('srv, 'idx) indexServer option"

definition facade_NewResourceServer ::
  "'srv \<Rightarrow> ('tr, 'st, 'srv, 'idx) ResourceServerOptions \<Rightarrow> error + ('srv, 'idx, 'st) server" where
  "facade_NewResourceServer self opts =
     Inr \<lparr>srv_self = self, srv_backend = opts_Backend opts, srv_index = opts_Index opts\<rparr>"

definition facade_Index ::
  "('srv, 'idx) IndexOps \<Rightarrow> error option goroutine \<Rightarrow> ('srv, 'idx, 'st) server \<Rightarrow> Context \<Rightarrow>
     IndexRequest \<Rightarrow> ('srv, 'idx, 'st) server \<times> IndexResponse option \<times> error option" where
  "facade_Index P watch s ctx req =
     (case srv_index s of
        None \<Rightarrow> (s, None, Some (Error ''search is not enabled''))
      | Some this \<Rightarrow>
          (if req_Key req = None then
             (case indexServer_Init this ctx (Some (srv_self s)) watch of
                (this1, wr, Some err) \<Rightarrow> (s\<lparr>srv_index := Some this1\<rparr>, None, Some err)
              | (this1, wr, None) \<Rightarrow>
                  (case indexServer_Index P this1 ctx req of
                     (this2, resp, err) \<Rightarrow> (s\<lparr>srv_index := Some this2\<rparr>, resp, err)))
           else
             (case indexServer_Index P this ctx req of
                (this1, resp, err) \<Rightarrow> (s\<lparr>srv_index := Some this1\<rparr>, resp, err))))"

section \<open>An index in memory, to run the index server on\<close>

text \<open>
  An instance of the operations the index server calls: the documents above as the
  index, an \<open>Init\<close> that fails on demand, and a decoder that rejects the empty value and
  reads any other value as the apiVersion of a playlist.
\<close>

definition decode_sample :: "string \<Rightarrow> error + Resource" where
  "decode_sample v =
     (if v = [] then Inl (Error ''unexpected end of input'')
      else Inr \<lparr>res_ApiVersion = v, res_Kind = ''Playlist'',
                res_Metadata = \<lparr>meta_Namespace = ''default'', meta_Name = ''p1''\<rparr>\<rparr>)"

definition mem_ops :: "bool \<Rightarrow> (unit, IndexDocument list) IndexOps" where
  "mem_ops init_ok =
     \<lparr>getResource = decode_sample,
      NewIndex = (\<lambda>srv opts. []),
      Index_Init = (\<lambda>i ctx. (i, if init_ok then None else Some (Error ''init failed''))),
      Index_Index = (\<lambda>i ctx d.
        case (i, data_Key d, data_Value d) of
          (Some docs, Some k, Some v) \<Rightarrow> (Some (fst (Index_upsert docs k v)), snd (Index_upsert docs k v))
        | _ \<Rightarrow> (i, Some (Error ''invalid argument'')))\<rparr>"

text \<open>
  An instance of what the constructor calls: a database provider and a backend that
  are there, and the resource server above on the index in memory, with the watch
  still being served when \<open>Init\<close> returns.
\<close>

definition mem_deps ::
  "bool \<Rightarrow> (unit, unit, unit, unit, unit, unit, IndexDocument list,
            (unit, IndexDocument list, unit) server) SqlDeps" where
  "mem_deps init_ok =
     \<lparr>FlagUnifiedStorageSearch = ''unifiedStorageSearch'',
      ProvideResourceDB = (\<lambda>db cfg features tracer. Inr ()),
      NewBackend = (\<lambda>opts. Inr ()),
      resource_NewResourceServer = facade_NewResourceServer (),
      server_Index = facade_Index (mem_ops init_ok) Running\<rparr>"

section \<open>Properties of getGroup\<close>

lemma IndexByte_None: "IndexByte s c = None \<longleftrightarrow> c \<notin> set s"
  by (induction s) auto

lemma IndexByte_Some_take: "IndexByte s c = Some m \<Longrightarrow> take m s = takeWhile (\<lambda>x. x \<noteq> c) s"
  by (induction s arbitrary: m) (auto split: if_splits)

lemma Split_nonempty: "Split s sep \<noteq> []"
  by (subst Split.simps) (simp split: option.split)

lemma Split_first: "Split s sep ! 0 = takeWhile (\<lambda>x. x \<noteq> sep) s"
proof (cases "IndexByte s sep")
  case None
  then have "sep \<notin> set s"
    by (simp add: IndexByte_None)
  then have whole: "takeWhile (\<lambda>x. x \<noteq> sep) s = s"
    by auto
  show ?thesis
    unfolding whole by (subst Split.simps) (simp add: None)
next
  case (Some m)
  then show ?thesis
    by (subst Split.simps) (simp add: IndexByte_Some_take)
qed

lemma getGroup_first_segment: "getGroup r = first_segment (res_ApiVersion r)"
  by (simp add: getGroup_def first_segment_def Let_def Split_nonempty Split_first)

lemma first_segment_prefix:
  "\<exists>rest. s = first_segment s @ rest \<and> CHR ''/'' \<notin> set (first_segment s)
     \<and> (rest = [] \<or> hd rest = CHR ''/'')"
proof -
  let ?P = "\<lambda>c. c \<noteq> CHR ''/''"
  have "s = takeWhile ?P s @ dropWhile ?P s"
    by simp
  moreover have "CHR ''/'' \<notin> set (takeWhile ?P s)"
    by (auto dest: set_takeWhileD)
  moreover have "dropWhile ?P s = [] \<or> hd (dropWhile ?P s) = CHR ''/''"
    using hd_dropWhile [of ?P s] by blast
  ultimately show ?thesis
    unfolding first_segment_def by blast
qed

lemma first_segment_empty:
  "first_segment s = [] \<longleftrightarrow> s = [] \<or> (\<exists>t. s = CHR ''/'' # t)"
  by (cases s) (auto simp: first_segment_def)

lemma first_segment_whole: "CHR ''/'' \<notin> set s \<Longrightarrow> first_segment s = s"
  by (auto simp: first_segment_def)

text \<open>
  C10. \<open>getGroup\<close> is total and its fallback branch is never taken: splitting on \<open>/\<close>
  yields at least one segment for every string (and \<open>Split\<close> terminates on every string),
  so \<open>getGroup\<close> returns what stands before the first \<open>/\<close> of the apiVersion: the whole
  string when it holds no \<open>/\<close>, and the empty string exactly when the apiVersion is
  empty or starts with \<open>/\<close>.
\<close>

theorem getGroup_total:
  "0 < length (Split (res_ApiVersion r) (CHR ''/''))
   \<and> getGroup r = first_segment (res_ApiVersion r)
   \<and> (\<exists>rest. res_ApiVersion r = getGroup r @ rest \<and> CHR ''/'' \<notin> set (getGroup r)
        \<and> (rest = [] \<or> hd rest = CHR ''/''))
   \<and> (CHR ''/'' \<notin> set (res_ApiVersion r) \<longrightarrow> getGroup r = res_ApiVersion r)
   \<and> (getGroup r = [] \<longleftrightarrow> res_ApiVersion r = [] \<or> (\<exists>t. res_ApiVersion r = CHR ''/'' # t))"
proof -
  have g: "getGroup r = first_segment (res_ApiVersion r)"
    by (rule getGroup_first_segment)
  have "0 < length (Split (res_ApiVersion r) (CHR ''/''))"
    by (simp add: Split_nonempty)
  moreover have "\<exists>rest. res_ApiVersion r = getGroup r @ rest \<and> CHR ''/'' \<notin> set (getGroup r)
        \<and> (rest = [] \<or> hd rest = CHR ''/'')"
    unfolding g by (rule first_segment_prefix)
  moreover have "CHR ''/'' \<notin> set (res_ApiVersion r) \<longrightarrow> getGroup r = res_ApiVersion r"
    unfolding g by (simp add: first_segment_whole)
  moreover have "getGroup r = [] \<longleftrightarrow> res_ApiVersion r = [] \<or> (\<exists>t. res_ApiVersion r = CHR ''/'' # t)"
    unfolding g by (rule first_segment_empty)
  ultimately show ?thesis
    using g by blast
qed

theorem getGroup_total_witness:
  "CHR ''/'' \<notin> set ''v1''
   \<and> getGroup \<lparr>res_ApiVersion = ''v1'', res_Kind = ''Pod'',
        res_Metadata = \<lparr>meta_Namespace = ''default'', meta_Name = ''p1''\<rparr>\<rparr> = ''v1''"
  using getGroup_total [of "\<lparr>res_ApiVersion = ''v1'', res_Kind = ''Pod'',
        res_Metadata = \<lparr>meta_Namespace = ''default'', meta_Name = ''p1''\<rparr>\<rparr>"]
  by (simp add: first_segment_def)

section \<open>Properties of the watch-to-index bridge\<close>

lemma Send_decoded:
  "getResource P (wer_Value (we_Resource we)) = Inr r \<Longrightarrow>
   Send P f this we =
     (case indexServer_Index P this (ws_context f)
             \<lparr>req_Key = Some (Send_key r), req_Value = Some (Send_value we)\<rparr> of
        (this1, resp, err) \<Rightarrow> (this1, err))"
  by (auto simp: Send_def Let_def split: prod.splits)

text \<open>
  C6. For every decoded resource, the group of the key that \<open>Send\<close> builds is the first
  segment of the apiVersion split on \<open>/\<close>, so the whole apiVersion when it holds no
  \<open>/\<close>; and that key is the one \<open>Send\<close> hands to the index server whenever the value of
  the event decodes to the resource.
\<close>

theorem Send_key_group:
  "key_Group (Send_key r) = first_segment (res_ApiVersion r)
   \<and> key_Group (Send_key r) = hd (Split (res_ApiVersion r) (CHR ''/''))
   \<and> (CHR ''/'' \<notin> set (res_ApiVersion r) \<longrightarrow> key_Group (Send_key r) = res_ApiVersion r)
   \<and> (getResource P (wer_Value (we_Resource we)) = Inr r \<longrightarrow>
        Send P f this we =
          (case indexServer_Index P this (ws_context f)
                  \<lparr>req_Key = Some (Send_key r), req_Value = Some (Send_value we)\<rparr> of
             (this1, resp, err) \<Rightarrow> (this1, err)))"
proof -
  have g: "key_Group (Send_key r) = first_segment (res_ApiVersion r)"
    by (simp add: Send_key_def getGroup_first_segment)
  have "hd (Split (res_ApiVersion r) (CHR ''/'')) = Split (res_ApiVersion r) (CHR ''/'') ! 0"
    by (simp add: hd_conv_nth Split_nonempty)
  then have h: "key_Group (Send_key r) = hd (Split (res_ApiVersion r) (CHR ''/''))"
    by (simp add: g first_segment_def Split_first)
  have w: "CHR ''/'' \<notin> set (res_ApiVersion r) \<longrightarrow> key_Group (Send_key r) = res_ApiVersion r"
    by (simp add: g first_segment_whole)
  show ?thesis
    using g h w Send_decoded [of P we r f this] by blast
qed

theorem Send_key_group_witness:
  "getResource (mem_ops True) ''playlist.grafana.app/v0alpha1'' =
     Inr \<lparr>res_ApiVersion = ''playlist.grafana.app/v0alpha1'', res_Kind = ''Playlist'',
          res_Metadata = \<lparr>meta_Namespace = ''default'', meta_Name = ''p1''\<rparr>\<rparr>
   \<and> key_Group (Send_key \<lparr>res_ApiVersion = ''playlist.grafana.app/v0alpha1'', res_Kind = ''Playlist'',
          res_Metadata = \<lparr>meta_Namespace = ''default'', meta_Name = ''p1''\<rparr>\<rparr>) = ''playlist.grafana.app''
   \<and> Send (mem_ops True) \<lparr>ws_context = Background\<rparr>
        \<lparr>is_s = None, is_index = Some [], is_ws = None\<rparr>
        \<lparr>we_Type = ADDED, we_Resource = \<lparr>wer_Version = 1, wer_Value = ''playlist.grafana.app/v0alpha1''\<rparr>\<rparr>
      = (\<lparr>is_s = None,
           is_index = Some [\<lparr>doc_key = \<lparr>key_Group = ''playlist.grafana.app'', key_Resource = ''Playlist'',
                                      key_Namespace = ''default'', key_Name = ''p1''\<rparr>,
                             doc_version = 1, doc_value = ''playlist.grafana.app/v0alpha1''\<rparr>],
           is_ws = None\<rparr>, None)
   \<and> CHR ''/'' \<notin> set ''v1''
   \<and> key_Group (Send_key \<lparr>res_ApiVersion = ''v1'', res_Kind = ''Pod'',
          res_Metadata = \<lparr>meta_Namespace = ''default'', meta_Name = ''p1''\<rparr>\<rparr>) = ''v1''"
  using Send_key_group [of "\<lparr>res_ApiVersion = ''playlist.grafana.app/v0alpha1'', res_Kind = ''Playlist'',
          res_Metadata = \<lparr>meta_Namespace = ''default'', meta_Name = ''p1''\<rparr>\<rparr>"
        "mem_ops True"
        "\<lparr>we_Type = ADDED, we_Resource = \<lparr>wer_Version = 1, wer_Value = ''playlist.grafana.app/v0alpha1''\<rparr>\<rparr>"
        "\<lparr>ws_context = Background\<rparr>" "\<lparr>is_s = None, is_index = Some [], is_ws = None\<rparr>"]
    Send_key_group [of "\<lparr>res_ApiVersion = ''v1'', res_Kind = ''Pod'',
          res_Metadata = \<lparr>meta_Namespace = ''default'', meta_Name = ''p1''\<rparr>\<rparr>"]
  by (simp add: mem_ops_def decode_sample_def first_segment_def indexServer_Index_def
        Send_value_def Index_upsert_def document_def Send_key_def getGroup_first_segment)

section \<open>Properties of the index server\<close>

text \<open>
  C1, as the code has it. \<open>Search\<close> returns an empty \<open>SearchResponse\<close> and a \<open>nil\<close>
  error for every request and in every state of the index server, also before any
  index has been built; the code has no state of readiness and no error for it.
\<close>

theorem Search_always_empty_success:
  "Search this ctx req = (Some \<lparr>sr_Items = []\<rparr>, None)"
  by (simp add: Search_def)

text \<open>
  The claim C1 as stated fails: on the index server as \<open>NewResourceIndexServer\<close> builds
  it, which holds no index yet, \<open>Search\<close> returns the empty response with a \<open>nil\<close>
  error, not an error.
\<close>

theorem Search_before_ready_counterexample:
  "is_index (NewResourceIndexServer :: (unit, IndexDocument list) indexServer) = None
   \<and> Search (NewResourceIndexServer :: (unit, IndexDocument list) indexServer) Background ''playlists''
       = (Some \<lparr>sr_Items = []\<rparr>, None)"
  by (simp add: Search_def NewResourceIndexServer_def)

lemma indexServer_Index_absent:
  "req_Key req = None \<Longrightarrow>
   indexServer_Index P this ctx req =
     (this\<lparr>is_index := Some (fst (Index_Init P (NewIndex P (is_s this) Opts) ctx))\<rparr>, None,
      snd (Index_Init P (NewIndex P (is_s this) Opts) ctx))"
  by (auto simp: indexServer_Index_def Let_def split: prod.splits)

lemma indexServer_Index_present:
  "req_Key req = Some k \<Longrightarrow>
   indexServer_Index P this ctx req =
     (this\<lparr>is_index :=
         fst (Index_Index P (is_index this) ctx \<lparr>data_Key = Some k, data_Value = req_Value req\<rparr>)\<rparr>,
      None,
      snd (Index_Index P (is_index this) ctx \<lparr>data_Key = Some k, data_Value = req_Value req\<rparr>))"
  by (auto simp: indexServer_Index_def Let_def split: prod.splits)

text \<open>
  C5. For every request handled by \<open>indexServer.Index\<close>: with an absent key, a fresh
  index is constructed from the server reference and initialized, and the index server
  holds it afterwards; with a key, the one document of the request's key and value is
  handed to the upsert of the index held. In both cases no response is returned, and
  the error returned is the error of that step, so it is \<open>nil\<close> exactly when the step
  succeeds.
\<close>

theorem indexServer_Index_steps:
  "(req_Key req = None \<longrightarrow>
      indexServer_Index P this ctx req =
        (this\<lparr>is_index := Some (fst (Index_Init P (NewIndex P (is_s this) Opts) ctx))\<rparr>, None,
         snd (Index_Init P (NewIndex P (is_s this) Opts) ctx)))
   \<and> (\<forall>k. req_Key req = Some k \<longrightarrow>
      indexServer_Index P this ctx req =
        (this\<lparr>is_index :=
            fst (Index_Index P (is_index this) ctx \<lparr>data_Key = Some k, data_Value = req_Value req\<rparr>)\<rparr>,
         None,
         snd (Index_Index P (is_index this) ctx \<lparr>data_Key = Some k, data_Value = req_Value req\<rparr>)))"
  using indexServer_Index_absent indexServer_Index_present by blast

theorem indexServer_Index_steps_witness:
  "req_Key \<lparr>req_Key = None, req_Value = None\<rparr> = None
   \<and> indexServer_Index (mem_ops True) \<lparr>is_s = Some (), is_index = None, is_ws = None\<rparr> Background
        \<lparr>req_Key = None, req_Value = None\<rparr>
       = (\<lparr>is_s = Some (), is_index = Some [], is_ws = None\<rparr>, None, None)
   \<and> indexServer_Index (mem_ops False) \<lparr>is_s = Some (), is_index = None, is_ws = None\<rparr> Background
        \<lparr>req_Key = None, req_Value = None\<rparr>
       = (\<lparr>is_s = Some (), is_index = Some [], is_ws = None\<rparr>, None, Some (Error ''init failed''))
   \<and> indexServer_Index (mem_ops True) \<lparr>is_s = Some (), is_index = Some [], is_ws = None\<rparr> Background
        \<lparr>req_Key = Some \<lparr>key_Group = ''g'', key_Resource = ''r'', key_Namespace = ''ns'', key_Name = ''n''\<rparr>,
         req_Value = Some \<lparr>rw_ResourceVersion = 1, rw_Value = ''v''\<rparr>\<rparr>
       = (\<lparr>is_s = Some (),
           is_index = Some [\<lparr>doc_key = \<lparr>key_Group = ''g'', key_Resource = ''r'', key_Namespace = ''ns'',
                                      key_Name = ''n''\<rparr>, doc_version = 1, doc_value = ''v''\<rparr>],
           is_ws = None\<rparr>, None, None)
   \<and> indexServer_Index (mem_ops True) \<lparr>is_s = Some (), is_index = Some [], is_ws = None\<rparr> Background
        \<lparr>req_Key = Some \<lparr>key_Group = ''g'', key_Resource = ''r'', key_Namespace = ''ns'', key_Name = ''n''\<rparr>,
         req_Value = None\<rparr>
       = (\<lparr>is_s = Some (), is_index = Some [], is_ws = None\<rparr>, None, Some (Error ''invalid argument''))"
  using indexServer_Index_steps [of "\<lparr>req_Key = None, req_Value = None\<rparr>" "mem_ops True"
      "\<lparr>is_s = Some (), is_index = None, is_ws = None\<rparr>" Background]
    indexServer_Index_steps [of "\<lparr>req_Key = None, req_Value = None\<rparr>" "mem_ops False"
      "\<lparr>is_s = Some (), is_index = None, is_ws = None\<rparr>" Background]
    indexServer_Index_steps [of
      "\<lparr>req_Key = Some \<lparr>key_Group = ''g'', key_Resource = ''r'', key_Namespace = ''ns'', key_Name = ''n''\<rparr>,
        req_Value = Some \<lparr>rw_ResourceVersion = 1, rw_Value = ''v''\<rparr>\<rparr>" "mem_ops True"
      "\<lparr>is_s = Some (), is_index = Some [], is_ws = None\<rparr>" Background]
    indexServer_Index_steps [of
      "\<lparr>req_Key = Some \<lparr>key_Group = ''g'', key_Resource = ''r'', key_Namespace = ''ns'', key_Name = ''n''\<rparr>,
        req_Value = None\<rparr>" "mem_ops True"
      "\<lparr>is_s = Some (), is_index = Some [], is_ws = None\<rparr>" Background]
  by (simp add: mem_ops_def Index_upsert_def document_def)

text \<open>
  C9. A request with an absent key replaces the index held by a freshly constructed one
  before it initializes it: when the initialization of the fresh index fails, the error
  is returned and the index server holds the fresh index as the failed \<open>Init\<close> left it,
  whatever index \<open>old\<close> it held before; the index held before is not restored.
\<close>

theorem reinit_keeps_fresh_index:
  assumes "req_Key req = None"
    and "Index_Init P (NewIndex P (is_s this) Opts) ctx = (i, Some e)"
  shows "indexServer_Index P (this\<lparr>is_index := old\<rparr>) ctx req = (this\<lparr>is_index := Some i\<rparr>, None, Some e)"
  using assms by (simp add: indexServer_Index_absent)

theorem reinit_keeps_fresh_index_witness:
  "req_Key \<lparr>req_Key = None, req_Value = None\<rparr> = None
   \<and> Index_Init (mem_ops False) (NewIndex (mem_ops False) (Some ()) Opts) Background
       = ([], Some (Error ''init failed''))
   \<and> indexServer_Index (mem_ops False)
        \<lparr>is_s = Some (),
         is_index = Some [\<lparr>doc_key = \<lparr>key_Group = ''g'', key_Resource = ''r'', key_Namespace = ''ns'',
                                    key_Name = ''n''\<rparr>, doc_version = 1, doc_value = ''v''\<rparr>],
         is_ws = None\<rparr>
        Background \<lparr>req_Key = None, req_Value = None\<rparr>
       = (\<lparr>is_s = Some (), is_index = Some [], is_ws = None\<rparr>, None, Some (Error ''init failed''))"
  using reinit_keeps_fresh_index [of "\<lparr>req_Key = None, req_Value = None\<rparr>" "mem_ops False"
      "\<lparr>is_s = Some (), is_index = None, is_ws = None\<rparr>" Background "[]" "Error ''init failed''"
      "Some [\<lparr>doc_key = \<lparr>key_Group = ''g'', key_Resource = ''r'', key_Namespace = ''ns'',
                                    key_Name = ''n''\<rparr>, doc_version = 1, doc_value = ''v''\<rparr>]"]
  by (simp add: mem_ops_def)

text \<open>
  C3, what the code does. While the goroutine is still inside \<open>Watch\<close>, as it is for as
  long as the subscription is open, \<open>Init\<close> returns \<open>nil\<close>: an error that \<open>Watch\<close> ends
  with later is assigned to a variable that nothing reads any more. \<open>Init\<close> has set the
  server reference and the watch server, and has handed the watch request for the
  playlists to the goroutine.
\<close>

theorem Init_returns_before_watch:
  "indexServer_Init this ctx rs Running =
     (this\<lparr>is_s := rs, is_ws := Some \<lparr>ws_context = ctx\<rparr>\<rparr>,
      \<lparr>wr_Options = Some \<lparr>lo_Key = Some
         \<lparr>key_Group = ''playlist.grafana.app'', key_Resource = ''playlists'',
          key_Namespace = [], key_Name = []\<rparr>\<rparr>\<rparr>,
      None)"
  by (simp add: indexServer_Init_def)

lemma Init_after_watch_returned:
  "snd (snd (indexServer_Init this ctx rs (Returned r))) = r"
  by (simp add: indexServer_Init_def)

section \<open>Properties of the constructor\<close>

lemma facade_Index_absent_ok:
  assumes "srv_index s = Some this"
    and "facade_Index P watch s ctx \<lparr>req_Key = None, req_Value = None\<rparr> = (s1, resp, None)"
  shows "s1 = s\<lparr>srv_index := Some
             \<lparr>is_s = Some (srv_self s),
              is_index = Some (fst (Index_Init P (NewIndex P (Some (srv_self s)) Opts) ctx)),
              is_ws = Some \<lparr>ws_context = ctx\<rparr>\<rparr>\<rparr>
         \<and> snd (Index_Init P (NewIndex P (Some (srv_self s)) Opts) ctx) = None"
  using assms
  by (cases this)
     (auto simp: facade_Index_def indexServer_Init_def indexServer_Index_absent
           split: option.splits goroutine.splits)

lemma facade_Index_absent_fails:
  assumes "srv_index s = Some this"
    and "snd (Index_Init P (NewIndex P (Some (srv_self s)) Opts) ctx) = Some e"
  shows "snd (snd (facade_Index P watch s ctx \<lparr>req_Key = None, req_Value = None\<rparr>)) \<noteq> None"
  using assms
  by (auto simp: facade_Index_def indexServer_Init_def indexServer_Index_absent
           split: option.splits goroutine.splits)

text \<open>
  C4. With the search feature enabled, \<open>NewResourceServer\<close> returns without error
  exactly when the database provider, the backend and the resource server (built with
  a fresh index server in its options) were constructed and the call of \<open>Index\<close> with
  an absent key on that server, made before returning, gave no error; once the server is
  constructed the constructor returns the server as that call left it together with the
  error of that call, so a failure of the call is a failure of the constructor. With
  the resource server of the specification, a constructor that returns without error
  returns a server whose index server holds the reference to that server and the watch
  server, and an index that was constructed from that reference and whose \<open>Init\<close> ran
  without error; and when that \<open>Init\<close> fails, the constructor fails.
\<close>

theorem NewResourceServer_indexed:
  assumes "features (FlagUnifiedStorageSearch D)"
  shows "(snd (NewResourceServer D db cfg features tracer) = None \<longleftrightarrow>
           (\<exists>eDB store server.
              ProvideResourceDB D db cfg features tracer = Inr eDB
              \<and> NewBackend D \<lparr>bo_DBProvider = eDB, bo_Tracer = tracer\<rparr> = Inr store
              \<and> resource_NewResourceServer D
                   \<lparr>opts_Tracer = tracer, opts_Backend = Some store, opts_Diagnostics = Some store,
                    opts_Lifecycle = Some store, opts_Index = Some NewResourceIndexServer\<rparr> = Inr server
              \<and> snd (snd (server_Index D server Background \<lparr>req_Key = None, req_Value = None\<rparr>)) = None))
    \<and> (\<forall>eDB store server.
          ProvideResourceDB D db cfg features tracer = Inr eDB
          \<and> NewBackend D \<lparr>bo_DBProvider = eDB, bo_Tracer = tracer\<rparr> = Inr store
          \<and> resource_NewResourceServer D
               \<lparr>opts_Tracer = tracer, opts_Backend = Some store, opts_Diagnostics = Some store,
                opts_Lifecycle = Some store, opts_Index = Some NewResourceIndexServer\<rparr> = Inr server
          \<longrightarrow> NewResourceServer D db cfg features tracer =
                (Some (fst (server_Index D server Background \<lparr>req_Key = None, req_Value = None\<rparr>)),
                 snd (snd (server_Index D server Background \<lparr>req_Key = None, req_Value = None\<rparr>))))
    \<and> (resource_NewResourceServer D = facade_NewResourceServer self
        \<and> server_Index D = facade_Index P watch \<longrightarrow>
          (\<forall>s. NewResourceServer D db cfg features tracer = (s, None) \<longrightarrow>
             (\<exists>store. s = Some
                \<lparr>srv_self = self, srv_backend = Some store,
                 srv_index = Some
                   \<lparr>is_s = Some self,
                    is_index = Some (fst (Index_Init P (NewIndex P (Some self) Opts) Background)),
                    is_ws = Some \<lparr>ws_context = Background\<rparr>\<rparr>\<rparr>)
             \<and> snd (Index_Init P (NewIndex P (Some self) Opts) Background) = None)
          \<and> (\<forall>e. snd (Index_Init P (NewIndex P (Some self) Opts) Background) = Some e \<longrightarrow>
                snd (NewResourceServer D db cfg features tracer) \<noteq> None))"
proof -
  let ?req = "\<lparr>req_Key = None, req_Value = None\<rparr>"
  let ?opts = "\<lambda>store. \<lparr>opts_Tracer = tracer, opts_Backend = Some store, opts_Diagnostics = Some store,
                opts_Lifecycle = Some store, opts_Index = Some NewResourceIndexServer\<rparr>"
  have steps: "NewResourceServer D db cfg features tracer =
                (Some (fst (server_Index D server Background ?req)),
                 snd (snd (server_Index D server Background ?req)))"
    if "ProvideResourceDB D db cfg features tracer = Inr eDB"
      and "NewBackend D \<lparr>bo_DBProvider = eDB, bo_Tracer = tracer\<rparr> = Inr store"
      and "resource_NewResourceServer D (?opts store) = Inr server"
    for eDB store server
    using that assms by (simp add: NewResourceServer_def Let_def split: prod.splits)
  have ok: "snd (NewResourceServer D db cfg features tracer) = None \<longleftrightarrow>
           (\<exists>eDB store server.
              ProvideResourceDB D db cfg features tracer = Inr eDB
              \<and> NewBackend D \<lparr>bo_DBProvider = eDB, bo_Tracer = tracer\<rparr> = Inr store
              \<and> resource_NewResourceServer D (?opts store) = Inr server
              \<and> snd (snd (server_Index D server Background ?req)) = None)"
    using assms
    by (auto simp: NewResourceServer_def Let_def split: sum.splits prod.splits)
  have wired: "(\<exists>store. s = Some
                \<lparr>srv_self = self, srv_backend = Some store,
                 srv_index = Some
                   \<lparr>is_s = Some self,
                    is_index = Some (fst (Index_Init P (NewIndex P (Some self) Opts) Background)),
                    is_ws = Some \<lparr>ws_context = Background\<rparr>\<rparr>\<rparr>)
             \<and> snd (Index_Init P (NewIndex P (Some self) Opts) Background) = None"
    if new: "resource_NewResourceServer D = facade_NewResourceServer self"
      and idx: "server_Index D = facade_Index P watch"
      and ret: "NewResourceServer D db cfg features tracer = (s, None)"
    for s
  proof -
    from ret have "snd (NewResourceServer D db cfg features tracer) = None"
      by simp
    with ok obtain eDB store srv where
      c: "ProvideResourceDB D db cfg features tracer = Inr eDB"
         "NewBackend D \<lparr>bo_DBProvider = eDB, bo_Tracer = tracer\<rparr> = Inr store"
         "resource_NewResourceServer D (?opts store) = Inr srv"
         "snd (snd (server_Index D srv Background ?req)) = None"
      by blast
    have srv: "srv = \<lparr>srv_self = self, srv_backend = Some store,
                      srv_index = Some NewResourceIndexServer\<rparr>"
      using c(3) by (simp add: new facade_NewResourceServer_def)
    obtain s1 resp where call: "facade_Index P watch srv Background ?req = (s1, resp, None)"
      using c(4) by (cases "facade_Index P watch srv Background ?req") (auto simp: idx)
    have s: "s = Some s1"
      using steps [OF c(1-3)] ret call by (simp add: idx)
    have "srv_index srv = Some NewResourceIndexServer"
      by (simp add: srv)
    from facade_Index_absent_ok [OF this call] show ?thesis
      by (auto simp: s srv)
  qed
  have fails: "snd (NewResourceServer D db cfg features tracer) \<noteq> None"
    if new: "resource_NewResourceServer D = facade_NewResourceServer self"
      and idx: "server_Index D = facade_Index P watch"
      and e: "snd (Index_Init P (NewIndex P (Some self) Opts) Background) = Some e"
    for e
  proof
    assume "snd (NewResourceServer D db cfg features tracer) = None"
    then obtain s where "NewResourceServer D db cfg features tracer = (s, None)"
      by (cases "NewResourceServer D db cfg features tracer") auto
    from wired [OF new idx this] e show False
      by simp
  qed
  show ?thesis
    using steps ok wired fails by blast
qed

theorem NewResourceServer_indexed_witness:
  "(\<lambda>flag. flag = ''unifiedStorageSearch'') (FlagUnifiedStorageSearch (mem_deps True))
   \<and> resource_NewResourceServer (mem_deps True) = facade_NewResourceServer ()
   \<and> server_Index (mem_deps True) = facade_Index (mem_ops True) Running
   \<and> NewResourceServer (mem_deps True) () () (\<lambda>flag. flag = ''unifiedStorageSearch'') ()
       = (Some \<lparr>srv_self = (), srv_backend = Some (),
                srv_index = Some \<lparr>is_s = Some (), is_index = Some [],
                                   is_ws = Some \<lparr>ws_context = Background\<rparr>\<rparr>\<rparr>, None)
   \<and> snd (Index_Init (mem_ops True) (NewIndex (mem_ops True) (Some ()) Opts) Background) = None
   \<and> snd (Index_Init (mem_ops False) (NewIndex (mem_ops False) (Some ()) Opts) Background)
       = Some (Error ''init failed'')
   \<and> NewResourceServer (mem_deps False) () () (\<lambda>flag. flag = ''unifiedStorageSearch'') ()
       = (Some \<lparr>srv_self = (), srv_backend = Some (),
                srv_index = Some \<lparr>is_s = Some (), is_index = Some [],
                                   is_ws = Some \<lparr>ws_context = Background\<rparr>\<rparr>\<rparr>,
          Some (Error ''init failed''))"
proof -
  let ?f = "\<lambda>flag. flag = ''unifiedStorageSearch''"
  have flag: "?f (FlagUnifiedStorageSearch (mem_deps b))" for b
    by (simp add: mem_deps_def)
  have new: "resource_NewResourceServer (mem_deps b) = facade_NewResourceServer ()" for b
    by (simp add: mem_deps_def)
  have idx: "server_Index (mem_deps b) = facade_Index (mem_ops b) Running" for b
    by (simp add: mem_deps_def)
  have init: "snd (Index_Init (mem_ops False) (NewIndex (mem_ops False) (Some ()) Opts) Background)
       = Some (Error ''init failed'')"
    by (simp add: mem_ops_def)
  have good: "NewResourceServer (mem_deps True) () () ?f ()
       = (Some \<lparr>srv_self = (), srv_backend = Some (),
                srv_index = Some \<lparr>is_s = Some (), is_index = Some [],
                                   is_ws = Some \<lparr>ws_context = Background\<rparr>\<rparr>\<rparr>, None)"
    by (simp add: NewResourceServer_def mem_deps_def facade_NewResourceServer_def facade_Index_def
          indexServer_Init_def indexServer_Index_def mem_ops_def NewResourceIndexServer_def)
  have bad: "NewResourceServer (mem_deps False) () () ?f ()
       = (Some \<lparr>srv_self = (), srv_backend = Some (),
                srv_index = Some \<lparr>is_s = Some (), is_index = Some [],
                                   is_ws = Some \<lparr>ws_context = Background\<rparr>\<rparr>\<rparr>,
          Some (Error ''init failed''))"
    by (simp add: NewResourceServer_def mem_deps_def facade_NewResourceServer_def facade_Index_def
          indexServer_Init_def indexServer_Index_def mem_ops_def NewResourceIndexServer_def)
  have "snd (Index_Init (mem_ops True) (NewIndex (mem_ops True) (Some ()) Opts) Background) = None"
    using NewResourceServer_indexed [of ?f "mem_deps True" "()" "()" "()" "()" "mem_ops True" Running]
      flag [of True] new [of True] idx [of True] good
    by blast
  moreover have "snd (NewResourceServer (mem_deps False) () () ?f ()) \<noteq> None"
    using NewResourceServer_indexed [of ?f "mem_deps False" "()" "()" "()" "()" "mem_ops False" Running]
      flag [of False] new [of False] idx [of False] init
    by blast
  ultimately show ?thesis
    using flag [of True] new [of True] idx [of True] good init bad by blast
qed

lemma NewResourceServer_plain:
  "\<not> features (FlagUnifiedStorageSearch D) \<Longrightarrow>
   ProvideResourceDB D db cfg features tracer = Inr eDB \<Longrightarrow>
   NewBackend D \<lparr>bo_DBProvider = eDB, bo_Tracer = tracer\<rparr> = Inr store \<Longrightarrow>
   NewResourceServer D db cfg features tracer =
     (case resource_NewResourceServer D
        \<lparr>opts_Tracer = tracer, opts_Backend = Some store, opts_Diagnostics = Some store,
         opts_Lifecycle = Some store, opts_Index = None\<rparr> of
        Inl err \<Rightarrow> (None, Some err) | Inr server \<Rightarrow> (Some server, None))"
  by (simp add: NewResourceServer_def)

section \<open>Errors of ingestion in the bridge\<close>

lemma Send_decode_error:
  "getResource P (wer_Value (we_Resource we)) = Inl e \<Longrightarrow> Send P f this we = (this, Some e)"
  by (simp add: Send_def)

lemma Send_upsert_error:
  "getResource P (wer_Value (we_Resource we)) = Inr r \<Longrightarrow>
   snd (Send P f this we) =
     snd (Index_Index P (is_index this) (ws_context f)
            \<lparr>data_Key = Some (Send_key r), data_Value = Some (Send_value we)\<rparr>)"
  by (simp add: Send_decoded indexServer_Index_present)

lemma Watch_deliver_error:
  "snd (Send P f this we) = Some e \<Longrightarrow>
   Watch_deliver P f this (we # wes) = (fst (Send P f this we), Some e, wes)"
  by (cases "Send P f this we") simp

lemma Watch_deliver_ok:
  "snd (Send P f this we) = None \<Longrightarrow>
   Watch_deliver P f this (we # wes) = Watch_deliver P f (fst (Send P f this we)) wes"
  by (cases "Send P f this we") simp

text \<open>
  C2, as the code has it. \<open>Send\<close> does not contain an error of ingestion: when the value
  of the event does not decode, \<open>Send\<close> returns the decoder's error and leaves the index
  server as it was; when it decodes, \<open>Send\<close> returns the error of the upsert of the one
  document. Nothing is logged, counted or retried. A delivery loop that unregisters a
  subscriber whose \<open>Send\<close> errors then ends with that error, and the events behind the
  failed one are not offered to the bridge.
\<close>

theorem Send_returns_ingestion_error:
  "(getResource P (wer_Value (we_Resource we)) = Inl e \<longrightarrow>
      Send P f this we = (this, Some e))
   \<and> (\<forall>r. getResource P (wer_Value (we_Resource we)) = Inr r \<longrightarrow>
      snd (Send P f this we) =
        snd (Index_Index P (is_index this) (ws_context f)
               \<lparr>data_Key = Some (Send_key r), data_Value = Some (Send_value we)\<rparr>))
   \<and> (snd (Send P f this we) = Some e \<longrightarrow>
      Watch_deliver P f this (we # wes) = (fst (Send P f this we), Some e, wes))"
  using Send_decode_error [of P we e f this] Send_upsert_error [of P we _ f this]
    Watch_deliver_error [of P f this we e wes]
  by blast

theorem Send_returns_ingestion_error_witness:
  "getResource (mem_ops True) [] = Inl (Error ''unexpected end of input'')
   \<and> Send (mem_ops True) \<lparr>ws_context = Background\<rparr> \<lparr>is_s = None, is_index = Some [], is_ws = None\<rparr>
        \<lparr>we_Type = ADDED, we_Resource = \<lparr>wer_Version = 1, wer_Value = []\<rparr>\<rparr>
       = (\<lparr>is_s = None, is_index = Some [], is_ws = None\<rparr>, Some (Error ''unexpected end of input''))
   \<and> Watch_deliver (mem_ops True) \<lparr>ws_context = Background\<rparr> \<lparr>is_s = None, is_index = Some [], is_ws = None\<rparr>
        [\<lparr>we_Type = ADDED, we_Resource = \<lparr>wer_Version = 1, wer_Value = []\<rparr>\<rparr>,
         \<lparr>we_Type = ADDED, we_Resource = \<lparr>wer_Version = 2, wer_Value = ''v1''\<rparr>\<rparr>]
       = (\<lparr>is_s = None, is_index = Some [], is_ws = None\<rparr>, Some (Error ''unexpected end of input''),
          [\<lparr>we_Type = ADDED, we_Resource = \<lparr>wer_Version = 2, wer_Value = ''v1''\<rparr>\<rparr>])
   \<and> getResource (mem_ops True) ''v1'' = Inr \<lparr>res_ApiVersion = ''v1'', res_Kind = ''Playlist'',
          res_Metadata = \<lparr>meta_Namespace = ''default'', meta_Name = ''p1''\<rparr>\<rparr>
   \<and> snd (Send (mem_ops True) \<lparr>ws_context = Background\<rparr> \<lparr>is_s = None, is_index = None, is_ws = None\<rparr>
        \<lparr>we_Type = ADDED, we_Resource = \<lparr>wer_Version = 2, wer_Value = ''v1''\<rparr>\<rparr>)
       = Some (Error ''invalid argument'')"
  using Send_returns_ingestion_error [of "mem_ops True"
      "\<lparr>we_Type = ADDED, we_Resource = \<lparr>wer_Version = 1, wer_Value = []\<rparr>\<rparr>"
      "Error ''unexpected end of input''" "\<lparr>ws_context = Background\<rparr>"
      "\<lparr>is_s = None, is_index = Some [], is_ws = None\<rparr>"
      "[\<lparr>we_Type = ADDED, we_Resource = \<lparr>wer_Version = 2, wer_Value = ''v1''\<rparr>\<rparr>]"]
    Send_returns_ingestion_error [of "mem_ops True"
      "\<lparr>we_Type = ADDED, we_Resource = \<lparr>wer_Version = 2, wer_Value = ''v1''\<rparr>\<rparr>"
      "Error ''invalid argument''" "\<lparr>ws_context = Background\<rparr>"
      "\<lparr>is_s = None, is_index = None, is_ws = None\<rparr>" "[]"]
  by (simp add: mem_ops_def decode_sample_def)

text \<open>
  The claim C2 as stated fails. On the index in memory, an event whose value does not
  decode, followed by an event that does: the delivery ends with the decoder's error,
  the index is as before and the second event is left over, although delivered alone
  it is indexed.
\<close>

theorem watch_loop_aborts_counterexample:
  "Watch_deliver (mem_ops True) \<lparr>ws_context = Background\<rparr>
        \<lparr>is_s = None, is_index = Some [], is_ws = Some \<lparr>ws_context = Background\<rparr>\<rparr>
        [\<lparr>we_Type = ADDED, we_Resource = \<lparr>wer_Version = 1, wer_Value = []\<rparr>\<rparr>,
         \<lparr>we_Type = ADDED, we_Resource = \<lparr>wer_Version = 2, wer_Value = ''v1''\<rparr>\<rparr>]
     = (\<lparr>is_s = None, is_index = Some [], is_ws = Some \<lparr>ws_context = Background\<rparr>\<rparr>,
        Some (Error ''unexpected end of input''),
        [\<lparr>we_Type = ADDED, we_Resource = \<lparr>wer_Version = 2, wer_Value = ''v1''\<rparr>\<rparr>])
   \<and> Watch_deliver (mem_ops True) \<lparr>ws_context = Background\<rparr>
        \<lparr>is_s = None, is_index = Some [], is_ws = Some \<lparr>ws_context = Background\<rparr>\<rparr>
        [\<lparr>we_Type = ADDED, we_Resource = \<lparr>wer_Version = 2, wer_Value = ''v1''\<rparr>\<rparr>]
     = (\<lparr>is_s = None,
         is_index = Some [\<lparr>doc_key = \<lparr>key_Group = ''v1'', key_Resource = ''Playlist'',
                                    key_Namespace = ''default'', key_Name = ''p1''\<rparr>,
                           doc_version = 2, doc_value = ''v1''\<rparr>],
         is_ws = Some \<lparr>ws_context = Background\<rparr>\<rparr>, None, [])"
  by (simp add: Send_def mem_ops_def decode_sample_def indexServer_Index_def Send_key_def
        Send_value_def Index_upsert_def document_def getGroup_first_segment first_segment_def)

section \<open>Properties of the parts modelled from the specification\<close>

lemma stored_upsert:
  "stored (upsert k v docs) k =
     (case stored docs k of
        None \<Rightarrow> Some (document k v)
      | Some d \<Rightarrow> if rw_ResourceVersion v \<le> doc_version d then Some d else Some (document k v))"
  by (induction docs) (auto simp: stored_def document_def)

lemma stored_upsert_other: "k' \<noteq> k \<Longrightarrow> stored (upsert k v docs) k' = stored docs k'"
  by (induction docs) (auto simp: stored_def document_def)

lemma upsert_discard:
  "stored docs k = Some d \<Longrightarrow> rw_ResourceVersion v \<le> doc_version d \<Longrightarrow> upsert k v docs = docs"
  by (induction docs) (auto simp: stored_def split: if_splits)

lemma upsert_version_ge:
  "\<exists>d. stored (upsert k v docs) k = Some d \<and> rw_ResourceVersion v \<le> doc_version d"
  by (auto simp: stored_upsert document_def split: option.splits)

lemma upsert_keys: "doc_key ` set (upsert k v docs) = insert k (doc_key ` set docs)"
  by (induction docs) (auto simp: document_def)

lemma upsert_distinct: "distinct (map doc_key docs) \<Longrightarrow> distinct (map doc_key (upsert k v docs))"
proof (induction docs)
  case Nil
  then show ?case by simp
next
  case (Cons d ds)
  have "doc_key d \<noteq> k \<Longrightarrow> doc_key d \<notin> doc_key ` set (upsert k v ds)"
    using Cons.prems by (auto simp: upsert_keys)
  with Cons show ?case
    by (auto simp: document_def)
qed

text \<open>
  C7. With \<open>v0\<close> older than \<open>v1\<close>: after \<open>Index(k, v1)\<close>, \<open>Index(k, v0)\<close> changes nothing,
  so the document stored for \<open>k\<close> stays where \<open>Index(k, v1)\<close> left it. That is the
  document of \<open>v1\<close> whenever the index held no document of \<open>k\<close> at the version of \<open>v1\<close>
  or above, and a document with the version of \<open>v1\<close> whenever it held none above that
  version, as is the case when events reach the index in non-decreasing order of
  version (section 5). In general a value whose version is less than or equal to the
  version stored for its key is a no-op, and indexing the same value twice is as
  indexing it once.
\<close>

theorem Index_upsert_discards_older:
  assumes "rw_ResourceVersion v0 < rw_ResourceVersion v1"
  shows "Index_upsert (fst (Index_upsert docs k v1)) k v0 = (fst (Index_upsert docs k v1), None)
    \<and> ((\<forall>d. stored docs k = Some d \<longrightarrow> doc_version d < rw_ResourceVersion v1) \<longrightarrow>
         stored (fst (Index_upsert (fst (Index_upsert docs k v1)) k v0)) k = Some (document k v1))
    \<and> ((\<forall>d. stored docs k = Some d \<longrightarrow> doc_version d \<le> rw_ResourceVersion v1) \<longrightarrow>
         (\<exists>d. stored (fst (Index_upsert (fst (Index_upsert docs k v1)) k v0)) k = Some d
              \<and> doc_version d = rw_ResourceVersion v1))
    \<and> (\<forall>d v. stored docs k = Some d \<and> rw_ResourceVersion v \<le> doc_version d \<longrightarrow>
         Index_upsert docs k v = (docs, None))
    \<and> Index_upsert (fst (Index_upsert docs k v1)) k v1 = (fst (Index_upsert docs k v1), None)"
proof -
  obtain d where d: "stored (upsert k v1 docs) k = Some d" "rw_ResourceVersion v1 \<le> doc_version d"
    using upsert_version_ge by blast
  have older: "upsert k v0 (upsert k v1 docs) = upsert k v1 docs"
    using d assms by (intro upsert_discard [of _ _ d]) auto
  have same: "upsert k v1 (upsert k v1 docs) = upsert k v1 docs"
    using d by (intro upsert_discard [of _ _ d]) auto
  have at_v1: "(\<forall>d. stored docs k = Some d \<longrightarrow> doc_version d < rw_ResourceVersion v1) \<longrightarrow>
         stored (upsert k v1 docs) k = Some (document k v1)"
    by (auto simp: stored_upsert split: option.splits)
  have version_v1: "(\<forall>d. stored docs k = Some d \<longrightarrow> doc_version d \<le> rw_ResourceVersion v1) \<longrightarrow>
         (\<exists>d. stored (upsert k v1 docs) k = Some d \<and> doc_version d = rw_ResourceVersion v1)"
    by (auto simp: stored_upsert document_def split: option.splits)
  show ?thesis
    using older same at_v1 version_v1 upsert_discard by (simp add: Index_upsert_def)
qed

theorem Index_upsert_discards_older_witness:
  "(2::int) < 3
   \<and> stored [\<lparr>doc_key = \<lparr>key_Group = ''g'', key_Resource = ''r'', key_Namespace = ''ns'', key_Name = ''n''\<rparr>,
               doc_version = 1, doc_value = ''first''\<rparr>]
        \<lparr>key_Group = ''g'', key_Resource = ''r'', key_Namespace = ''ns'', key_Name = ''n''\<rparr>
     = Some \<lparr>doc_key = \<lparr>key_Group = ''g'', key_Resource = ''r'', key_Namespace = ''ns'', key_Name = ''n''\<rparr>,
             doc_version = 1, doc_value = ''first''\<rparr>
   \<and> fst (Index_upsert (fst (Index_upsert
         [\<lparr>doc_key = \<lparr>key_Group = ''g'', key_Resource = ''r'', key_Namespace = ''ns'', key_Name = ''n''\<rparr>,
           doc_version = 1, doc_value = ''first''\<rparr>]
         \<lparr>key_Group = ''g'', key_Resource = ''r'', key_Namespace = ''ns'', key_Name = ''n''\<rparr>
         \<lparr>rw_ResourceVersion = 3, rw_Value = ''new''\<rparr>))
         \<lparr>key_Group = ''g'', key_Resource = ''r'', key_Namespace = ''ns'', key_Name = ''n''\<rparr>
         \<lparr>rw_ResourceVersion = 2, rw_Value = ''old''\<rparr>)
     = [\<lparr>doc_key = \<lparr>key_Group = ''g'', key_Resource = ''r'', key_Namespace = ''ns'', key_Name = ''n''\<rparr>,
         doc_version = 3, doc_value = ''new''\<rparr>]"
  using Index_upsert_discards_older [of "\<lparr>rw_ResourceVersion = 2, rw_Value = ''old''\<rparr>"
      "\<lparr>rw_ResourceVersion = 3, rw_Value = ''new''\<rparr>"
      "[\<lparr>doc_key = \<lparr>key_Group = ''g'', key_Resource = ''r'', key_Namespace = ''ns'', key_Name = ''n''\<rparr>,
         doc_version = 1, doc_value = ''first''\<rparr>]"
      "\<lparr>key_Group = ''g'', key_Resource = ''r'', key_Namespace = ''ns'', key_Name = ''n''\<rparr>"]
  by (simp add: stored_def document_def Index_upsert_def)

lemma Write_matching:
  "latest_version b k = Some e \<Longrightarrow> snd (Write True b k val (Some e)) = Inr (e + 1)"
  by (simp add: Write_def Let_def)

lemma Write_latest:
  "Write True b k val None = (b', Inr n) \<Longrightarrow> latest_version b' k = Some n"
  by (auto simp: Write_def Let_def latest_version_def split: list.splits option.splits)

text \<open>
  C8. A \<open>Write\<close> whose \<open>expectedVersion\<close> does not match the latest stored version of
  its key fails with \<open>ConflictError\<close> and returns the backend as it was: the versions of
  every key and the events emitted are unchanged.
\<close>

theorem Write_stale_conflict:
  assumes "latest_version b k \<noteq> Some e"
  shows "Write storage_ok b k val (Some e) = (b, Inl ConflictError)"
  using assms by (auto simp: Write_def Let_def)

theorem Write_stale_conflict_witness:
  "latest_version
      \<lparr>be_versions = (\<lambda>k. [\<lparr>rw_ResourceVersion = 1, rw_Value = ''a''\<rparr>, \<lparr>rw_ResourceVersion = 2, rw_Value = ''b''\<rparr>]),
       be_events = []\<rparr>
      \<lparr>key_Group = ''g'', key_Resource = ''r'', key_Namespace = ''ns'', key_Name = ''n''\<rparr> \<noteq> Some 1
   \<and> Write True
      \<lparr>be_versions = (\<lambda>k. [\<lparr>rw_ResourceVersion = 1, rw_Value = ''a''\<rparr>, \<lparr>rw_ResourceVersion = 2, rw_Value = ''b''\<rparr>]),
       be_events = []\<rparr>
      \<lparr>key_Group = ''g'', key_Resource = ''r'', key_Namespace = ''ns'', key_Name = ''n''\<rparr> ''c'' (Some 1)
     = (\<lparr>be_versions = (\<lambda>k. [\<lparr>rw_ResourceVersion = 1, rw_Value = ''a''\<rparr>, \<lparr>rw_ResourceVersion = 2, rw_Value = ''b''\<rparr>]),
         be_events = []\<rparr>, Inl ConflictError)"
  using Write_stale_conflict [of
      "\<lparr>be_versions = (\<lambda>k. [\<lparr>rw_ResourceVersion = 1, rw_Value = ''a''\<rparr>, \<lparr>rw_ResourceVersion = 2, rw_Value = ''b''\<rparr>]),
        be_events = []\<rparr>"
      "\<lparr>key_Group = ''g'', key_Resource = ''r'', key_Namespace = ''ns'', key_Name = ''n''\<rparr>" 1 True "''c''"]
  by (simp add: latest_version_def)

end
